theory Spec2Isabelle
  imports Main "HOL-Library.AList"
begin

section \<open>Python values\<close>

text \<open>
  The gateway handles the values that \<^verbatim>\<open>json.loads\<close> produces. A JSON object is a Python
  dict, kept here as an association list in insertion order; Python's \<^verbatim>\<open>None\<close> is
  \<open>JNull\<close>. A float is carried by its \<^verbatim>\<open>repr\<close> text, which the program only ever
  passes on or prints. A \<open>string\<close> is a sequence of code points below 256.
\<close>

datatype json =
    JNull
  | JBool bool
  | JInt int
  | JFloat string
  | JStr string
  | JList "json list"
  | JDict "(string \<times> json) list"

type_synonym pydict = "(string \<times> json) list"

text \<open>The exceptions that the modelled code can raise.\<close>

datatype py_exn = AttributeError | TypeError | ValueError | RequestException

text \<open>\<^verbatim>\<open>d.get(k, default)\<close> and \<^verbatim>\<open>d.get(k)\<close>, whose default is \<^verbatim>\<open>None\<close>.\<close>

definition dict_get_default :: "pydict \<Rightarrow> string \<Rightarrow> json \<Rightarrow> json" where
  "dict_get_default d k dflt = (case map_of d k of None \<Rightarrow> dflt | Some v \<Rightarrow> v)"

definition dict_get :: "pydict \<Rightarrow> string \<Rightarrow> json" where
  "dict_get d k = dict_get_default d k JNull"

text \<open>\<^verbatim>\<open>k in d\<close>.\<close>

definition dict_contains :: "pydict \<Rightarrow> string \<Rightarrow> bool" where
  "dict_contains d k = (map_of d k \<noteq> None)"

text \<open>
  \<^verbatim>\<open>d[k] = v\<close>: an existing key keeps its position, a new key goes to the end.
\<close>

definition dict_set :: "string \<Rightarrow> json \<Rightarrow> pydict \<Rightarrow> pydict" where
  "dict_set k v d = AList.update k v d"

text \<open>\<^verbatim>\<open>x.get(k, default)\<close> on an arbitrary value: only a dict has the method.\<close>

definition py_get_default :: "json \<Rightarrow> string \<Rightarrow> json \<Rightarrow> py_exn + json" where
  "py_get_default x k dflt =
     (case x of JDict d \<Rightarrow> Inr (dict_get_default d k dflt) | _ \<Rightarrow> Inl AttributeError)"

section \<open>Transforming mesh metrics to the backend format\<close>

text \<open>
  \<^verbatim>\<open>transform_metrics\<close>, statement by statement. The only expression that can raise
  is \<^verbatim>\<open>data["mesh"].get("rssi", 0)\<close>, when the mesh entry is not a dict; the later
  \<^verbatim>\<open>data.get("mesh", {}).get("node_count", 0)\<close> is written out in the same way.
\<close>

definition transform_metrics :: "pydict \<Rightarrow> py_exn + pydict" where
  "transform_metrics data =
     (let payload =
            [(''node_name'', dict_get_default data ''node_name'' (JStr ''Unknown'')),
             (''temperature'', dict_get data ''temperature''),
             (''humidity'', dict_get data ''humidity''),
             (''dht_enabled'', dict_get_default data ''dht_enabled'' (JBool True))];
          payload1 =
            (if dict_contains data ''system''
             then dict_set ''system'' (dict_get data ''system'') payload
             else payload)
      in case (if dict_contains data ''mesh''
               then (case py_get_default (dict_get data ''mesh'') ''rssi'' (JInt 0) of
                       Inl e \<Rightarrow> Inl e
                     | Inr rssi \<Rightarrow>
                         Inr (dict_set ''current_wifi''
                                (JDict [(''ssid'', JStr ''mesh_network''),
                                        (''rssi'', rssi),
                                        (''bssid'', JStr []),
                                        (''ip'', JStr []),
                                        (''channel'', JInt 6)])
                                payload1))
               else Inr payload1) of
           Inl e \<Rightarrow> Inl e
         | Inr payload2 \<Rightarrow>
             (case py_get_default (dict_get_default data ''mesh'' (JDict [])) ''node_count'' (JInt 0) of
                Inl e \<Rightarrow> Inl e
              | Inr node_count \<Rightarrow>
                  Inr (dict_set ''mesh_status''
                         (JDict [(''enabled'', JBool True),
                                 (''running'', JBool True),
                                 (''node_id'', dict_get_default data ''node_id'' (JInt 0)),
                                 (''node_count'', node_count)])
                         payload2)))"


section \<open>Text of Python values\<close>

text \<open>Decimal digits of a natural number and of an integer, as \<^verbatim>\<open>str\<close> prints them.\<close>

definition digit_char :: "nat \<Rightarrow> char" where
  "digit_char n = ''0123456789abcdef'' ! n"

fun dec_nat :: "nat \<Rightarrow> string" where
  "dec_nat n = (if n < 10 then [digit_char n] else dec_nat (n div 10) @ [digit_char (n mod 10)])"

definition dec_int :: "int \<Rightarrow> string" where
  "dec_int i = (if i < 0 then CHR ''-'' # dec_nat (nat (- i)) else dec_nat (nat i))"

definition hex2 :: "nat \<Rightarrow> string" where
  "hex2 n = [digit_char (n div 16), digit_char (n mod 16)]"

fun join :: "string \<Rightarrow> string list \<Rightarrow> string" where
  "join sep [] = []"
| "join sep [x] = x"
| "join sep (x # y # ys) = x @ sep @ join sep (y # ys)"

text \<open>
  \<^verbatim>\<open>repr\<close> of a string: single quotes unless the text has a single quote and no
  double quote; backslash, the quote, tab, newline and return are escaped by a backslash,
  every other non-printable code point as \<^verbatim>\<open>\xhh\<close>.
\<close>

definition printable :: "char \<Rightarrow> bool" where
  "printable c = (let n = (of_char c :: nat) in (32 \<le> n \<and> n < 127) \<or> (161 \<le> n \<and> n \<noteq> 173))"

definition repr_char :: "char \<Rightarrow> char \<Rightarrow> string" where
  "repr_char q c =
     (if c = q \<or> c = CHR 0x5C then [CHR 0x5C, c]
      else if c = CHR 0x09 then [CHR 0x5C, CHR ''t'']
      else if c = CHR 0x0A then [CHR 0x5C, CHR ''n'']
      else if c = CHR 0x0D then [CHR 0x5C, CHR ''r'']
      else if printable c then [c]
      else [CHR 0x5C, CHR ''x''] @ hex2 (of_char c))"

definition repr_str :: "string \<Rightarrow> string" where
  "repr_str s =
     (let q = (if CHR 0x27 \<in> set s \<and> CHR 0x22 \<notin> set s then CHR 0x22 else CHR 0x27)
      in [q] @ concat (map (repr_char q) s) @ [q])"

fun py_repr :: "json \<Rightarrow> string" where
  "py_repr JNull = ''None''"
| "py_repr (JBool b) = (if b then ''True'' else ''False'')"
| "py_repr (JInt i) = dec_int i"
| "py_repr (JFloat r) = r"
| "py_repr (JStr s) = repr_str s"
| "py_repr (JList xs) = ''['' @ join '', '' (map py_repr xs) @ '']''"
| "py_repr (JDict d) =
     ''{'' @ join '', '' (map (\<lambda>kv. repr_str (fst kv) @ '': '' @ py_repr (snd kv)) d) @ ''}''"

text \<open>\<^verbatim>\<open>str(x)\<close>: a string is itself, everything else prints as its \<^verbatim>\<open>repr\<close>.\<close>

definition py_str :: "json \<Rightarrow> string" where
  "py_str x = (case x of JStr s \<Rightarrow> s | _ \<Rightarrow> py_repr x)"

text \<open>
  \<^verbatim>\<open>int(s)\<close> on a string: surrounding whitespace is dropped, then an optional sign and
  decimal digits, where single underscores may stand between digits; anything else raises
  \<^verbatim>\<open>ValueError\<close>. (The limit on the number of digits of Python 3.11 is left out.)
\<close>

definition int_space :: "char \<Rightarrow> bool" where
  "int_space c = ((of_char c :: nat) \<in> {9, 10, 11, 12, 13, 32, 133, 160})"

definition is_digit :: "char \<Rightarrow> bool" where
  "is_digit c = (48 \<le> (of_char c :: nat) \<and> (of_char c :: nat) \<le> 57)"

definition digit_val :: "char \<Rightarrow> nat" where
  "digit_val c = of_char c - 48"

fun digits_value :: "nat \<Rightarrow> string \<Rightarrow> nat option" where
  "digits_value acc [] = Some acc"
| "digits_value acc [c] = (if is_digit c then Some (10 * acc + digit_val c) else None)"
| "digits_value acc (c # d # ds) =
     (if is_digit c then digits_value (10 * acc + digit_val c) (d # ds)
      else if c = CHR ''_'' \<and> is_digit d then digits_value (10 * acc + digit_val d) ds
      else None)"

definition py_int :: "string \<Rightarrow> py_exn + int" where
  "py_int s =
     (let t = rev (dropWhile int_space (rev (dropWhile int_space s)));
          neg = (case t of [] \<Rightarrow> False | c # _ \<Rightarrow> c = CHR ''-'');
          u = (case t of [] \<Rightarrow> [] | c # cs \<Rightarrow> if c = CHR ''-'' \<or> c = CHR ''+'' then cs else t)
      in case u of
           [] \<Rightarrow> Inl ValueError
         | d # ds \<Rightarrow>
             if is_digit d
             then (case digits_value (digit_val d) ds of
                     None \<Rightarrow> Inl ValueError
                   | Some n \<Rightarrow> Inr (if neg then - int n else int n))
             else Inl ValueError)"

text \<open>
  \<^verbatim>\<open>json.dumps\<close> with its default settings: the separators are a comma and a colon
  each followed by one space, and with \<^verbatim>\<open>ensure_ascii\<close> every code point outside
  the printable ASCII range is written as \<^verbatim>\<open>\u00hh\<close>.
\<close>

definition dumps_char :: "char \<Rightarrow> string" where
  "dumps_char c =
     (if c = CHR 0x22 then [CHR 0x5C, CHR 0x22]
      else if c = CHR 0x5C then [CHR 0x5C, CHR 0x5C]
      else if c = CHR 0x0A then [CHR 0x5C, CHR ''n'']
      else if c = CHR 0x0D then [CHR 0x5C, CHR ''r'']
      else if c = CHR 0x09 then [CHR 0x5C, CHR ''t'']
      else if c = CHR 0x08 then [CHR 0x5C, CHR ''b'']
      else if c = CHR 0x0C then [CHR 0x5C, CHR ''f'']
      else if 32 \<le> (of_char c :: nat) \<and> (of_char c :: nat) < 127 then [c]
      else [CHR 0x5C, CHR ''u'', CHR ''0'', CHR ''0''] @ hex2 (of_char c))"

definition dumps_str :: "string \<Rightarrow> string" where
  "dumps_str s = [CHR 0x22] @ concat (map dumps_char s) @ [CHR 0x22]"

definition dumps_float :: "string \<Rightarrow> string" where
  "dumps_float r =
     (if r = ''nan'' then ''NaN'' else if r = ''inf'' then ''Infinity''
      else if r = ''-inf'' then ''-Infinity'' else r)"

fun dumps :: "json \<Rightarrow> string" where
  "dumps JNull = ''null''"
| "dumps (JBool b) = (if b then ''true'' else ''false'')"
| "dumps (JInt i) = dec_int i"
| "dumps (JFloat r) = dumps_float r"
| "dumps (JStr s) = dumps_str s"
| "dumps (JList xs) = ''['' @ join '', '' (map dumps xs) @ '']''"
| "dumps (JDict d) =
     ''{'' @ join '', '' (map (\<lambda>kv. dumps_str (fst kv) @ '': '' @ dumps (snd kv)) d) @ ''}''"

text \<open>
  \<^verbatim>\<open>for cmd in commands\<close>: a list gives its elements, a dict its keys, a string its
  characters; any other value is not iterable.
\<close>

definition py_iter :: "json \<Rightarrow> py_exn + json list" where
  "py_iter x =
     (case x of
        JList xs \<Rightarrow> Inr xs
      | JDict d \<Rightarrow> Inr (map (\<lambda>kv. JStr (fst kv)) d)
      | JStr s \<Rightarrow> Inr (map (\<lambda>c. JStr [c]) s)
      | _ \<Rightarrow> Inl TypeError)"


section \<open>The gateway\<close>

text \<open>
  What the gateway does to the outside: HTTP requests with their URL and headers, lines
  written to the serial port, and the warning of \<^verbatim>\<open>register_node\<close>. A request
  or write is recorded when it is attempted.
\<close>

datatype event =
    Http_Post string "(string \<times> string) list" pydict
  | Http_Get string "(string \<times> string) list"
  | Serial_Write string
  | Serial_Write_Failed string
  | Register_Attempt json

text \<open>
  The fields of \<^verbatim>\<open>MeshGateway\<close>. \<open>serial\<close> is \<open>None\<close> while the attribute is
  \<^verbatim>\<open>None\<close>, otherwise the \<^verbatim>\<open>is_open\<close> flag of the port object. The entries of the
  \<^verbatim>\<open>stats\<close> dict are fields of their own; the start time and the unused buffer are left
  out. \<open>effects\<close> collects the events, oldest first.
\<close>

record gateway =
  serial_port :: string
  baud_rate :: int
  backend_url :: string
  gateway_token :: string
  serial :: "bool option"
  node_tokens :: "(string \<times> string) list"
  messages_received :: int
  messages_sent_to_backend :: int
  commands_sent_to_mesh :: int
  errors :: int
  effects :: "event list"

definition rstrip_slash :: "string \<Rightarrow> string" where
  "rstrip_slash s = rev (dropWhile (\<lambda>c. c = CHR ''/'') (rev s))"

definition gateway_init :: "string \<Rightarrow> int \<Rightarrow> string \<Rightarrow> string \<Rightarrow> gateway" where
  "gateway_init port baud url token =
     \<lparr>serial_port = port, baud_rate = baud, backend_url = rstrip_slash url,
      gateway_token = token, serial = None, node_tokens = [],
      messages_received = 0, messages_sent_to_backend = 0, commands_sent_to_mesh = 0,
      errors = 0, effects = []\<rparr>"

definition emit :: "event \<Rightarrow> gateway \<Rightarrow> gateway" where
  "emit e g = g\<lparr>effects := effects g @ [e]\<rparr>"

text \<open>The events that an operation added: those of \<open>g'\<close> after the ones already in \<open>g\<close>.\<close>

definition new_effects :: "gateway \<Rightarrow> gateway \<Rightarrow> event list" where
  "new_effects g g' = drop (length (effects g)) (effects g')"

subsection \<open>Serial connection\<close>

text \<open>
  \<^verbatim>\<open>connect_serial\<close>: whether the port opens is decided outside; on failure the
  attribute keeps its value.
\<close>

definition connect_serial :: "bool \<Rightarrow> gateway \<Rightarrow> bool \<times> gateway" where
  "connect_serial opens g = (if opens then (True, g\<lparr>serial := Some True\<rparr>) else (False, g))"

definition disconnect_serial :: "gateway \<Rightarrow> gateway" where
  "disconnect_serial g = (if serial g = Some True then g\<lparr>serial := Some False\<rparr> else g)"

subsection \<open>Metrics to the backend\<close>

text \<open>\<^verbatim>\<open>register_node\<close> logs and returns \<^verbatim>\<open>None\<close>.\<close>

definition register_node :: "json \<Rightarrow> pydict \<Rightarrow> gateway \<Rightarrow> string option \<times> gateway" where
  "register_node node_id data g = (None, emit (Register_Attempt node_id) g)"

text \<open>\<^verbatim>\<open>not token\<close>: true of \<^verbatim>\<open>None\<close> and of the empty string.\<close>

definition not_token :: "string option \<Rightarrow> bool" where
  "not_token t = (case t of None \<Rightarrow> True | Some s \<Rightarrow> s = [])"

text \<open>What \<^verbatim>\<open>requests.post\<close> does: a response with its status code, or an exception.\<close>

datatype post_outcome = Post_Status int | Post_RequestException

text \<open>
  \<^verbatim>\<open>send_to_backend\<close>. A token that is missing or empty sends the call to
  \<^verbatim>\<open>register_node\<close>, and the call returns \<^verbatim>\<open>False\<close> when that gives no token
  either. The handler of the \<^verbatim>\<open>try\<close> catches \<^verbatim>\<open>RequestException\<close> only, so
  the \<^verbatim>\<open>AttributeError\<close> of \<^verbatim>\<open>transform_metrics\<close> leaves the function.
\<close>

definition send_to_backend ::
    "post_outcome \<Rightarrow> json \<Rightarrow> pydict \<Rightarrow> gateway \<Rightarrow> (py_exn + bool) \<times> gateway" where
  "send_to_backend post node_id data g =
     (let token0 = map_of (node_tokens g) (py_str node_id);
          (token1, g1) = (if not_token token0 then register_node node_id data g else (token0, g))
      in case token1 of
           None \<Rightarrow> (Inr False, g1)
         | Some token \<Rightarrow>
             if token = [] then (Inr False, g1)
             else
               (case transform_metrics data of
                  Inl e \<Rightarrow> (Inl e, g1)
                | Inr payload \<Rightarrow>
                    (let url = backend_url g1 @ ''/api/v1/metrics'';
                         headers = [(''Content-Type'', ''application/json''),
                                    (''X-Device-Token'', token)];
                         g2 = emit (Http_Post url headers payload) g1
                     in case post of
                          Post_RequestException \<Rightarrow> (Inr False, g2\<lparr>errors := errors g2 + 1\<rparr>)
                        | Post_Status code \<Rightarrow>
                            if code = 200
                            then (Inr True,
                                  g2\<lparr>messages_sent_to_backend := messages_sent_to_backend g2 + 1\<rparr>)
                            else if code = 401
                            then (Inr False,
                                  g2\<lparr>node_tokens := AList.delete (py_str node_id) (node_tokens g2)\<rparr>)
                            else (Inr False, g2))))"

subsection \<open>Commands to the mesh\<close>

text \<open>
  \<^verbatim>\<open>send_command_to_mesh\<close>. Whether the write succeeds is decided outside. Every
  exception of the body is caught and logged: the \<^verbatim>\<open>AttributeError\<close> of
  \<^verbatim>\<open>command.get\<close> on a command that is no dict, and a failing write.
\<close>

definition send_command_to_mesh :: "bool \<Rightarrow> int \<Rightarrow> json \<Rightarrow> gateway \<Rightarrow> gateway" where
  "send_command_to_mesh write_ok node_id command g =
     (if serial g = None \<or> serial g = Some False then g
      else
        (case command of
           JDict c \<Rightarrow>
             (let mesh_cmd = JDict [(''type'', JStr ''send''),
                                    (''target'', JInt node_id),
                                    (''data'', JDict [(''cmd'', dict_get c ''type''),
                                                      (''value'', dict_get c ''payload''),
                                                      (''cmd_id'', dict_get c ''id'')])];
                  line = dumps mesh_cmd @ [CHR 0x0A]
              in if write_ok
                 then (emit (Serial_Write line) g)
                        \<lparr>commands_sent_to_mesh := commands_sent_to_mesh g + 1\<rparr>
                 else emit (Serial_Write_Failed line) g)
         | _ \<Rightarrow> g))"

text \<open>
  What \<^verbatim>\<open>requests.get\<close> does: an exception, or a response with its status code and
  what \<^verbatim>\<open>response.json()\<close> gives, a value or an exception.
\<close>

datatype get_outcome = Get_RequestException | Get_Response int "py_exn + json"

text \<open>
  The inner loop of \<^verbatim>\<open>poll_commands\<close> over the commands of one node. \<open>w 0\<close> says
  whether the write for the first command succeeds, \<open>w 1\<close> for the second, and so on.
  \<^verbatim>\<open>int(node_id)\<close> is evaluated for each command, before the call.
\<close>

fun deliver :: "(nat \<Rightarrow> bool) \<Rightarrow> string \<Rightarrow> json list \<Rightarrow> gateway \<Rightarrow> py_exn option \<times> gateway" where
  "deliver w node_id [] g = (None, g)"
| "deliver w node_id (cmd # cmds) g =
     (case py_int node_id of
        Inl e \<Rightarrow> (Some e, g)
      | Inr n \<Rightarrow> deliver (\<lambda>j. w (Suc j)) node_id cmds (send_command_to_mesh (w 0) n cmd g))"

text \<open>
  The body of the \<^verbatim>\<open>try\<close> for one node: the request, and on status 200 the
  delivery of the commands. The result is the exception that ends it, if any.
\<close>

definition poll_node ::
    "get_outcome \<Rightarrow> (nat \<Rightarrow> bool) \<Rightarrow> string \<Rightarrow> string \<Rightarrow> gateway \<Rightarrow> py_exn option \<times> gateway" where
  "poll_node got w node_id token g =
     (let url = backend_url g @ ''/api/v1/devices/commands/pending'';
          headers = [(''Authorization'', ''Bearer '' @ gateway_token g),
                     (''X-Device-Token'', token)];
          g1 = emit (Http_Get url headers) g
      in case got of
           Get_RequestException \<Rightarrow> (Some RequestException, g1)
         | Get_Response code body \<Rightarrow>
             if code = 200
             then (case body of
                     Inl e \<Rightarrow> (Some e, g1)
                   | Inr commands \<Rightarrow>
                       (case py_iter commands of
                          Inl e \<Rightarrow> (Some e, g1)
                        | Inr cmds \<Rightarrow> deliver w node_id cmds g1))
             else (None, g1))"

text \<open>
  The loop of \<^verbatim>\<open>poll_commands\<close> over the entries of the token map. \<open>get 0\<close> is the
  outcome of the request for the first node and \<open>w 0\<close> the write outcomes for its
  commands. A \<^verbatim>\<open>RequestException\<close> is caught and the loop goes on; any other
  exception ends the loop and leaves the function.
\<close>

fun poll_loop ::
    "(nat \<Rightarrow> get_outcome) \<Rightarrow> (nat \<Rightarrow> nat \<Rightarrow> bool) \<Rightarrow> (string \<times> string) list \<Rightarrow> gateway
      \<Rightarrow> py_exn option \<times> gateway" where
  "poll_loop get w [] g = (None, g)"
| "poll_loop get w ((node_id, token) # rest) g =
     (case poll_node (get 0) (w 0) node_id token g of
        (None, g1) \<Rightarrow> poll_loop (\<lambda>i. get (Suc i)) (\<lambda>i. w (Suc i)) rest g1
      | (Some e, g1) \<Rightarrow>
          if e = RequestException
          then poll_loop (\<lambda>i. get (Suc i)) (\<lambda>i. w (Suc i)) rest g1
          else (Some e, g1))"

definition poll_commands ::
    "(nat \<Rightarrow> get_outcome) \<Rightarrow> (nat \<Rightarrow> nat \<Rightarrow> bool) \<Rightarrow> gateway \<Rightarrow> py_exn option \<times> gateway" where
  "poll_commands get w g = poll_loop get w (node_tokens g) g"


subsection \<open>Messages from the bridge\<close>

text \<open>
  \<^verbatim>\<open>process_message\<close>. \<^verbatim>\<open>msg.get("type")\<close> comes first and raises
  \<^verbatim>\<open>AttributeError\<close> when the message is no dict; the counter is incremented after
  it. Only metrics from a mesh node go on to the backend; every other branch of the
  \<^verbatim>\<open>elif\<close> chain only logs.
\<close>

definition process_message :: "post_outcome \<Rightarrow> json \<Rightarrow> gateway \<Rightarrow> py_exn option \<times> gateway" where
  "process_message post msg g =
     (case msg of
        JDict m \<Rightarrow>
          (let msg_type = dict_get m ''type'';
               g1 = g\<lparr>messages_received := messages_received g + 1\<rparr>
           in if msg_type = JStr ''mesh_data''
              then
                (let from_node = dict_get m ''from'';
                     data = dict_get_default m ''data'' (JDict [])
                 in case data of
                      JDict d \<Rightarrow>
                        if dict_get d ''msg_type'' = JStr ''metrics''
                        then (case send_to_backend post from_node d g1 of
                                (Inl e, g2) \<Rightarrow> (Some e, g2)
                              | (Inr _, g2) \<Rightarrow> (None, g2))
                        else (None, g1)
                    | _ \<Rightarrow> (None, g1))
              else (None, g1))
      | _ \<Rightarrow> (Some AttributeError, g))"

text \<open>
  What one turn of the loop of \<^verbatim>\<open>read_serial\<close> gets from \<^verbatim>\<open>readline\<close>: an
  exception of the port, or a line. The line is given by what decoding it yields: no bytes
  (a timeout), bytes that are not UTF-8, text that is blank after \<^verbatim>\<open>strip\<close>, text
  that \<^verbatim>\<open>json.loads\<close> rejects, or the value that \<^verbatim>\<open>json.loads\<close> returns.
  \<^verbatim>\<open>json.loads\<close> also returns a value for text with \<^verbatim>\<open>NaN\<close> or
  \<^verbatim>\<open>Infinity\<close>, which JSON does not have; such a line is a \<open>Line_JSON\<close> too.
\<close>

datatype serial_line = Line_Timeout | Line_Not_UTF8 | Line_Blank | Line_Not_JSON | Line_JSON json

datatype serial_read = Read_SerialException | Read_Line serial_line

text \<open>How a turn of the loop ends: normally, or in one of the handlers.\<close>

datatype turn =
    Dispatched
  | Skipped
  | Reconnected
  | Caught_JSONDecodeError
  | Caught_UnicodeDecodeError
  | Caught_SerialException
  | Caught_Exception py_exn

text \<open>
  One turn of the loop of \<^verbatim>\<open>read_serial\<close>. The inner \<^verbatim>\<open>try\<close> catches the two
  decoding errors; the outer one catches the port's exception and, last, every other
  exception. No exception leaves the loop.
\<close>

definition read_serial_turn ::
    "bool \<Rightarrow> serial_read \<Rightarrow> post_outcome \<Rightarrow> gateway \<Rightarrow> turn \<times> gateway" where
  "read_serial_turn opens rd post g =
     (if serial g = None \<or> serial g = Some False
      then (Reconnected, snd (connect_serial opens g))
      else
        (case rd of
           Read_SerialException \<Rightarrow> (Caught_SerialException, disconnect_serial g)
         | Read_Line Line_Timeout \<Rightarrow> (Skipped, g)
         | Read_Line Line_Not_UTF8 \<Rightarrow> (Caught_UnicodeDecodeError, g)
         | Read_Line Line_Blank \<Rightarrow> (Skipped, g)
         | Read_Line Line_Not_JSON \<Rightarrow> (Caught_JSONDecodeError, g)
         | Read_Line (Line_JSON data) \<Rightarrow>
             (case process_message post data g of
                (None, g1) \<Rightarrow> (Dispatched, g1)
              | (Some e, g1) \<Rightarrow> (Caught_Exception e, g1))))"


subsection \<open>The two threads\<close>

text \<open>
  One turn of \<^verbatim>\<open>command_poller\<close> after its sleep: the poll runs only when the token
  map is not empty. An exception that leaves \<^verbatim>\<open>poll_commands\<close> ends the thread.
\<close>

definition command_poller_turn ::
    "(nat \<Rightarrow> get_outcome) \<Rightarrow> (nat \<Rightarrow> nat \<Rightarrow> bool) \<Rightarrow> gateway \<Rightarrow> py_exn option \<times> gateway" where
  "command_poller_turn get w g =
     (if node_tokens g \<noteq> [] then poll_commands get w g else (None, g))"

text \<open>
  A run of the process is a sequence of turns of the two loops, each turn taken as a
  whole. The state is the gateway and whether the poller thread is still alive.
\<close>

datatype step =
    Reader bool serial_read post_outcome
  | Poller "nat \<Rightarrow> get_outcome" "nat \<Rightarrow> nat \<Rightarrow> bool"

fun exec :: "step \<Rightarrow> gateway \<times> bool \<Rightarrow> gateway \<times> bool" where
  "exec (Reader opens rd post) (g, alive) = (snd (read_serial_turn opens rd post g), alive)"
| "exec (Poller get w) (g, alive) =
     (if alive
      then (case command_poller_turn get w g of
              (None, g1) \<Rightarrow> (g1, True)
            | (Some e, g1) \<Rightarrow> (g1, False))
      else (g, alive))"

fun run :: "step list \<Rightarrow> gateway \<times> bool \<Rightarrow> gateway \<times> bool" where
  "run [] s = s"
| "run (st # sts) s = run sts (exec st s)"

section \<open>Properties\<close>

subsection \<open>Auxiliary notions\<close>

text \<open>A payload whose mesh entry, if there is one, is a dict.\<close>

definition is_dict :: "json \<Rightarrow> bool" where
  "is_dict x = (case x of JDict _ \<Rightarrow> True | _ \<Rightarrow> False)"

definition mesh_ok :: "pydict \<Rightarrow> bool" where
  "mesh_ok data = (case map_of data ''mesh'' of None \<Rightarrow> True | Some m \<Rightarrow> is_dict m)"

definition scalar_fields :: "pydict \<Rightarrow> pydict" where
  "scalar_fields data =
     [(''node_name'', dict_get_default data ''node_name'' (JStr ''Unknown'')),
      (''temperature'', dict_get data ''temperature''),
      (''humidity'', dict_get data ''humidity''),
      (''dht_enabled'', dict_get_default data ''dht_enabled'' (JBool True))]"

definition system_field :: "pydict \<Rightarrow> pydict" where
  "system_field data = (case map_of data ''system'' of None \<Rightarrow> [] | Some s \<Rightarrow> [(''system'', s)])"

definition wifi_block :: "json \<Rightarrow> json" where
  "wifi_block rssi = JDict [(''ssid'', JStr ''mesh_network''), (''rssi'', rssi),
      (''bssid'', JStr []), (''ip'', JStr []), (''channel'', JInt 6)]"

definition status_block :: "json \<Rightarrow> json \<Rightarrow> json" where
  "status_block nid cnt = JDict [(''enabled'', JBool True), (''running'', JBool True),
      (''node_id'', nid), (''node_count'', cnt)]"


text \<open>A gateway with an open port and two registered nodes, and a metrics payload.\<close>

definition example_gateway :: gateway where
  "example_gateway =
     (gateway_init ''/dev/ttyUSB0'' 115200 ''https://chnu-iot.com/'' ''gw-token'')
       \<lparr>serial := Some True, node_tokens := [(''7'', ''tok-7''), (''3'', ''tok-3'')]\<rparr>"

definition example_metrics :: pydict where
  "example_metrics =
     [(''msg_type'', JStr ''metrics''), (''temperature'', JFloat ''21.5''), (''humidity'', JInt 40)]"

text \<open>
  The line that \<^verbatim>\<open>send_command_to_mesh\<close> writes for a command, and the command and
  poll of the scenario with node 3.
\<close>

definition command_line :: "int \<Rightarrow> pydict \<Rightarrow> string" where
  "command_line node_id c =
     dumps (JDict [(''type'', JStr ''send''), (''target'', JInt node_id),
                   (''data'', JDict [(''cmd'', dict_get c ''type''),
                                     (''value'', dict_get c ''payload''),
                                     (''cmd_id'', dict_get c ''id'')])]) @ [CHR 0x0A]"

definition reboot_command :: pydict where
  "reboot_command = [(''type'', JStr ''reboot''), (''payload'', JNull), (''id'', JStr ''c1'')]"

definition example_poll_gateway :: gateway where
  "example_poll_gateway = example_gateway\<lparr>node_tokens := [(''3'', ''tok-3'')]\<rparr>"

definition example_get :: "nat \<Rightarrow> get_outcome" where
  "example_get i = Get_Response 200 (Inr (JList [JDict
           [(''type'', JStr ''reboot''), (''payload'', JNull), (''id'', JStr ''c1'')]]))"

text \<open>A metrics payload with a mesh entry.\<close>

definition example_mesh_metrics :: pydict where
  "example_mesh_metrics =
     [(''temperature'', JFloat ''21.5''), (''node_id'', JInt 7),
      (''mesh'', JDict [(''rssi'', JInt (- 61)), (''node_count'', JInt 4)])]"




text \<open>Every write of a poll cycle succeeds.\<close>

definition writes_succeed :: "nat \<Rightarrow> nat \<Rightarrow> bool" where
  "writes_succeed i j = True"

text \<open>
  Notions for a poll cycle. An answer is well-formed when it is a failure of the request, a
  status other than 200, or status 200 with a body that is no JSON (a
  \<^verbatim>\<open>RequestException\<close> of \<^verbatim>\<open>response.json()\<close>) or that can be iterated over.
  \<open>commands_of\<close> are the commands an answer carries, \<open>poll_request\<close> is the GET for a
  token, and \<open>cycle_events\<close> lists what a whole cycle does: for each node its GET and
  then, with the port open, one write or failed write for each command that is a dict.
\<close>

definition answer_ok :: "get_outcome \<Rightarrow> bool" where
  "answer_ok got =
     (case got of
        Get_RequestException \<Rightarrow> True
      | Get_Response code body \<Rightarrow>
          code \<noteq> 200 \<or>
          (case body of
             Inl e \<Rightarrow> e = RequestException
           | Inr v \<Rightarrow> (case py_iter v of Inl _ \<Rightarrow> False | Inr _ \<Rightarrow> True)))"

definition commands_of :: "get_outcome \<Rightarrow> json list" where
  "commands_of got =
     (case got of
        Get_RequestException \<Rightarrow> []
      | Get_Response code body \<Rightarrow>
          if code = 200
          then (case body of
                  Inl e \<Rightarrow> []
                | Inr v \<Rightarrow> (case py_iter v of Inl _ \<Rightarrow> [] | Inr cmds \<Rightarrow> cmds))
          else [])"

definition is_http_get :: "event \<Rightarrow> bool" where
  "is_http_get e = (case e of Http_Get _ _ \<Rightarrow> True | _ \<Rightarrow> False)"

definition poll_request :: "gateway \<Rightarrow> string \<Rightarrow> event" where
  "poll_request g token =
     Http_Get (backend_url g @ ''/api/v1/devices/commands/pending'')
       [(''Authorization'', ''Bearer '' @ gateway_token g), (''X-Device-Token'', token)]"

definition command_events :: "bool \<Rightarrow> bool \<Rightarrow> int \<Rightarrow> json \<Rightarrow> event list" where
  "command_events link ok n cmd =
     (if link
      then (case cmd of
              JDict c \<Rightarrow> [if ok then Serial_Write (command_line n c)
                          else Serial_Write_Failed (command_line n c)]
            | _ \<Rightarrow> [])
      else [])"

fun batch_events :: "bool \<Rightarrow> (nat \<Rightarrow> bool) \<Rightarrow> int \<Rightarrow> json list \<Rightarrow> event list" where
  "batch_events link w n [] = []"
| "batch_events link w n (cmd # cmds) =
     command_events link (w 0) n cmd @ batch_events link (\<lambda>j. w (Suc j)) n cmds"

fun cycle_events ::
    "(string \<Rightarrow> event) \<Rightarrow> bool \<Rightarrow> (nat \<Rightarrow> get_outcome) \<Rightarrow> (nat \<Rightarrow> nat \<Rightarrow> bool)
      \<Rightarrow> (string \<times> string) list \<Rightarrow> event list" where
  "cycle_events req link get w [] = []"
| "cycle_events req link get w (kt # rest) =
     req (snd kt)
       # (case py_int (fst kt) of
            Inl _ \<Rightarrow> []
          | Inr n \<Rightarrow> batch_events link (w 0) n (commands_of (get 0)))
       @ cycle_events req link (\<lambda>i. get (Suc i)) (\<lambda>i. w (Suc i)) rest"

text \<open>A poll in which the request for the first node fails and the second gets the reboot.\<close>

definition failing_then_reboot :: "nat \<Rightarrow> get_outcome" where
  "failing_then_reboot i = (if i = 0 then Get_RequestException else example_get i)"

subsection \<open>The transformed payload\<close>

lemmas transform_defs = transform_metrics_def dict_contains_def dict_get_def
  dict_get_default_def dict_set_def py_get_default_def Let_def

lemma mesh_cases:
  assumes "mesh_ok data"
  obtains "map_of data ''mesh'' = None" | m where "map_of data ''mesh'' = Some (JDict m)"
  using assms by (auto simp: mesh_ok_def is_dict_def split: option.splits json.splits)

lemma transform_metrics_no_mesh:
  assumes "map_of data ''mesh'' = None"
  shows "transform_metrics data = Inr (scalar_fields data @ system_field data @
     [(''mesh_status'', status_block (dict_get_default data ''node_id'' (JInt 0)) (JInt 0))])"
  using assms
  by (cases "map_of data ''system''")
     (simp_all add: transform_defs scalar_fields_def system_field_def status_block_def)

lemma transform_metrics_mesh:
  assumes "map_of data ''mesh'' = Some (JDict m)"
  shows "transform_metrics data = Inr (scalar_fields data @ system_field data @
     [(''current_wifi'', wifi_block (dict_get_default m ''rssi'' (JInt 0))),
      (''mesh_status'', status_block (dict_get_default data ''node_id'' (JInt 0))
          (dict_get_default m ''node_count'' (JInt 0)))])"
  using assms
  by (cases "map_of data ''system''")
     (simp_all add: transform_defs scalar_fields_def system_field_def status_block_def
        wifi_block_def)

lemma transform_metrics_bad_mesh:
  assumes "map_of data ''mesh'' = Some x" and "\<not> is_dict x"
  shows "transform_metrics data = Inl AttributeError"
  using assms by (cases x) (simp_all add: transform_defs is_dict_def)

lemma transform_metrics_total:
  assumes "mesh_ok data"
  shows "\<exists>p. transform_metrics data = Inr p"
  using assms
  by (rule mesh_cases) (simp_all add: transform_metrics_no_mesh transform_metrics_mesh)

text \<open>
  C1, as stated, fails: an optional field that the input does not have is not left out.
  For the empty payload the output has a null temperature and humidity, the name
  \<^verbatim>\<open>"Unknown"\<close> and the flag \<^verbatim>\<open>true\<close>.
\<close>

theorem transform_metrics_pads_absent_fields:
  "\<not> dict_contains [] ''temperature'' \<and> \<not> dict_contains [] ''node_name'' \<and>
   transform_metrics [] = Inr
     [(''node_name'', JStr ''Unknown''), (''temperature'', JNull), (''humidity'', JNull),
      (''dht_enabled'', JBool True),
      (''mesh_status'', JDict [(''enabled'', JBool True), (''running'', JBool True),
          (''node_id'', JInt 0), (''node_count'', JInt 0)])]"
  by (simp add: transform_defs)

text \<open>
  C1, amended: for every payload whose mesh entry, if present, is a dict,
  \<^verbatim>\<open>transform_metrics\<close> returns a payload in which every source field has its
  destination. The node name, temperature, humidity and DHT flag are always present, with
  the input's value where the input has the field and otherwise with
  \<^verbatim>\<open>"Unknown"\<close>, null, null and true. The system block is present exactly when the
  input has one, with the same value. The current-WiFi block is present exactly when the
  input has a mesh entry, and then carries the rssi of the mesh entry (default 0) beside
  its fixed fields. The mesh status is always present, with the input's node id (default 0)
  and the node count of the mesh entry (default 0, also without a mesh entry). The output
  has no other keys than these seven, each at most once.
\<close>

theorem transform_metrics_field_mapping:
  assumes "mesh_ok data"
  shows "\<exists>p. transform_metrics data = Inr p
    \<and> map_of p ''node_name'' = Some (dict_get_default data ''node_name'' (JStr ''Unknown''))
    \<and> map_of p ''temperature'' = Some (dict_get data ''temperature'')
    \<and> map_of p ''humidity'' = Some (dict_get data ''humidity'')
    \<and> map_of p ''dht_enabled'' = Some (dict_get_default data ''dht_enabled'' (JBool True))
    \<and> map_of p ''system'' = map_of data ''system''
    \<and> dict_contains p ''current_wifi'' = dict_contains data ''mesh''
    \<and> (\<forall>m. map_of data ''mesh'' = Some (JDict m) \<longrightarrow>
          map_of p ''current_wifi'' = Some (JDict
             [(''ssid'', JStr ''mesh_network''),
              (''rssi'', dict_get_default m ''rssi'' (JInt 0)),
              (''bssid'', JStr []), (''ip'', JStr []), (''channel'', JInt 6)])
        \<and> map_of p ''mesh_status'' = Some (JDict
             [(''enabled'', JBool True), (''running'', JBool True),
              (''node_id'', dict_get_default data ''node_id'' (JInt 0)),
              (''node_count'', dict_get_default m ''node_count'' (JInt 0))]))
    \<and> (map_of data ''mesh'' = None \<longrightarrow>
          map_of p ''mesh_status'' = Some (JDict
             [(''enabled'', JBool True), (''running'', JBool True),
              (''node_id'', dict_get_default data ''node_id'' (JInt 0)),
              (''node_count'', JInt 0)]))
    \<and> distinct (map fst p)
    \<and> set (map fst p) \<subseteq> {''node_name'', ''temperature'', ''humidity'', ''dht_enabled'',
          ''system'', ''current_wifi'', ''mesh_status''}"
  using assms
proof (rule mesh_cases)
  assume "map_of data ''mesh'' = None"
  then show ?thesis
    by (cases "map_of data ''system''")
       (simp_all add: transform_metrics_no_mesh scalar_fields_def system_field_def
          dict_contains_def status_block_def)
next
  fix m assume "map_of data ''mesh'' = Some (JDict m)"
  then show ?thesis
    by (cases "map_of data ''system''")
       (simp_all add: transform_metrics_mesh scalar_fields_def system_field_def
          dict_contains_def status_block_def wifi_block_def)
qed

theorem transform_metrics_field_mapping_witness:
  "mesh_ok example_mesh_metrics \<and>
   (\<exists>p. transform_metrics example_mesh_metrics = Inr p
      \<and> map_of p ''node_name'' = Some (JStr ''Unknown'')
      \<and> map_of p ''temperature'' = Some (JFloat ''21.5'')
      \<and> map_of p ''humidity'' = Some JNull
      \<and> map_of p ''system'' = None
      \<and> map_of p ''current_wifi'' = Some (JDict
             [(''ssid'', JStr ''mesh_network''), (''rssi'', JInt (- 61)),
              (''bssid'', JStr []), (''ip'', JStr []), (''channel'', JInt 6)])
      \<and> map_of p ''mesh_status'' = Some (JDict
             [(''enabled'', JBool True), (''running'', JBool True),
              (''node_id'', JInt 7), (''node_count'', JInt 4)]))"
proof -
  have h: "mesh_ok example_mesh_metrics"
    by (simp add: mesh_ok_def is_dict_def example_mesh_metrics_def)
  have m: "map_of example_mesh_metrics ''mesh''
      = Some (JDict [(''rssi'', JInt (- 61)), (''node_count'', JInt 4)])"
    by (simp add: example_mesh_metrics_def)
  obtain p where p: "transform_metrics example_mesh_metrics = Inr p"
    and f: "map_of p ''node_name''
         = Some (dict_get_default example_mesh_metrics ''node_name'' (JStr ''Unknown''))"
      "map_of p ''temperature'' = Some (dict_get example_mesh_metrics ''temperature'')"
      "map_of p ''humidity'' = Some (dict_get example_mesh_metrics ''humidity'')"
      "map_of p ''system'' = map_of example_mesh_metrics ''system''"
    and b: "\<forall>m. map_of example_mesh_metrics ''mesh'' = Some (JDict m) \<longrightarrow>
          map_of p ''current_wifi'' = Some (JDict
             [(''ssid'', JStr ''mesh_network''),
              (''rssi'', dict_get_default m ''rssi'' (JInt 0)),
              (''bssid'', JStr []), (''ip'', JStr []), (''channel'', JInt 6)])
        \<and> map_of p ''mesh_status'' = Some (JDict
             [(''enabled'', JBool True), (''running'', JBool True),
              (''node_id'', dict_get_default example_mesh_metrics ''node_id'' (JInt 0)),
              (''node_count'', dict_get_default m ''node_count'' (JInt 0))])"
    using transform_metrics_field_mapping [OF h] by blast
  from b m have w: "map_of p ''current_wifi'' = Some (JDict
             [(''ssid'', JStr ''mesh_network''),
              (''rssi'', dict_get_default [(''rssi'', JInt (- 61)), (''node_count'', JInt 4)]
                   ''rssi'' (JInt 0)),
              (''bssid'', JStr []), (''ip'', JStr []), (''channel'', JInt 6)])"
      "map_of p ''mesh_status'' = Some (JDict
             [(''enabled'', JBool True), (''running'', JBool True),
              (''node_id'', dict_get_default example_mesh_metrics ''node_id'' (JInt 0)),
              (''node_count'', dict_get_default [(''rssi'', JInt (- 61)), (''node_count'', JInt 4)]
                   ''node_count'' (JInt 0))])"
    by blast+
  show ?thesis
    using h p f w
    by (simp add: dict_get_def dict_get_default_def example_mesh_metrics_def)
qed

text \<open>
  C6, as stated, fails for an input whose mesh entry is no dict: with a null mesh entry
  \<^verbatim>\<open>data["mesh"].get\<close> raises \<^verbatim>\<open>AttributeError\<close> and there is no payload, so
  not every input gets a mesh-status block.
\<close>

theorem transform_metrics_mesh_null_raises:
  "dict_contains [(''temperature'', JInt 1), (''mesh'', JNull)] ''mesh''
   \<and> transform_metrics [(''temperature'', JInt 1), (''mesh'', JNull)] = Inl AttributeError"
  by (simp add: transform_defs)

text \<open>
  C6, amended: for every payload whose mesh entry, if present, is a dict, the transformed
  payload has a mesh-status block with both flags true, the input's node id (default 0) and
  the node count of the mesh entry (default 0). With a mesh entry it has a current-WiFi
  block with the SSID \<^verbatim>\<open>mesh_network\<close>, the rssi of the mesh entry (default 0), empty
  bssid and ip, and channel 6; without a mesh entry it has no current-WiFi block.
\<close>


theorem transform_metrics_wifi_and_status:
  assumes "mesh_ok data"
  shows "\<exists>p. transform_metrics data = Inr p
    \<and> (map_of data ''mesh'' = None \<longrightarrow>
          map_of p ''current_wifi'' = None
        \<and> map_of p ''mesh_status'' = Some (JDict
             [(''enabled'', JBool True), (''running'', JBool True),
              (''node_id'', dict_get_default data ''node_id'' (JInt 0)),
              (''node_count'', JInt 0)]))
    \<and> (\<forall>m. map_of data ''mesh'' = Some (JDict m) \<longrightarrow>
          map_of p ''current_wifi'' = Some (JDict
             [(''ssid'', JStr ''mesh_network''),
              (''rssi'', dict_get_default m ''rssi'' (JInt 0)),
              (''bssid'', JStr []), (''ip'', JStr []), (''channel'', JInt 6)])
        \<and> map_of p ''mesh_status'' = Some (JDict
             [(''enabled'', JBool True), (''running'', JBool True),
              (''node_id'', dict_get_default data ''node_id'' (JInt 0)),
              (''node_count'', dict_get_default m ''node_count'' (JInt 0))]))"
  using assms
proof (rule mesh_cases)
  assume "map_of data ''mesh'' = None"
  then show ?thesis
    by (cases "map_of data ''system''")
       (simp_all add: transform_metrics_no_mesh scalar_fields_def system_field_def
          status_block_def)
next
  fix m assume "map_of data ''mesh'' = Some (JDict m)"
  then show ?thesis
    by (cases "map_of data ''system''")
       (simp_all add: transform_metrics_mesh scalar_fields_def system_field_def
          status_block_def wifi_block_def)
qed

theorem transform_metrics_wifi_and_status_witness:
  "mesh_ok [(''node_id'', JInt 7), (''mesh'', JDict [(''rssi'', JInt (- 61))])] \<and>
   (\<exists>p. transform_metrics [(''node_id'', JInt 7), (''mesh'', JDict [(''rssi'', JInt (- 61))])]
           = Inr p
      \<and> map_of p ''current_wifi'' = Some (JDict
             [(''ssid'', JStr ''mesh_network''), (''rssi'', JInt (- 61)),
              (''bssid'', JStr []), (''ip'', JStr []), (''channel'', JInt 6)])
      \<and> map_of p ''mesh_status'' = Some (JDict
             [(''enabled'', JBool True), (''running'', JBool True),
              (''node_id'', JInt 7), (''node_count'', JInt 0)]))"
proof -
  have h: "mesh_ok [(''node_id'', JInt 7), (''mesh'', JDict [(''rssi'', JInt (- 61))])]"
    by (simp add: mesh_ok_def is_dict_def)
  show ?thesis
    using h transform_metrics_wifi_and_status [OF h]
    by (auto simp: dict_get_default_def)
qed

subsection \<open>Forwarding metrics\<close>


lemma send_to_backend_no_token:
  assumes "not_token (map_of (node_tokens g) (py_str node_id))"
  shows "send_to_backend post node_id data g = (Inr False, emit (Register_Attempt node_id) g)"
  using assms by (simp add: send_to_backend_def register_node_def)

lemma send_to_backend_token:
  assumes "map_of (node_tokens g) (py_str node_id) = Some token" and "token \<noteq> []"
    and "transform_metrics data = Inr payload"
  shows "send_to_backend post node_id data g =
     (let g2 = emit (Http_Post (backend_url g @ ''/api/v1/metrics'')
                  [(''Content-Type'', ''application/json''), (''X-Device-Token'', token)]
                  payload) g
      in case post of
           Post_RequestException \<Rightarrow> (Inr False, g2\<lparr>errors := errors g2 + 1\<rparr>)
         | Post_Status code \<Rightarrow>
             if code = 200
             then (Inr True, g2\<lparr>messages_sent_to_backend := messages_sent_to_backend g2 + 1\<rparr>)
             else if code = 401
             then (Inr False, g2\<lparr>node_tokens := AList.delete (py_str node_id) (node_tokens g2)\<rparr>)
             else (Inr False, g2))"
  using assms by (simp add: send_to_backend_def not_token_def Let_def emit_def)

lemma send_to_backend_raises:
  assumes "map_of (node_tokens g) (py_str node_id) = Some token" and "token \<noteq> []"
    and "transform_metrics data = Inl e"
  shows "send_to_backend post node_id data g = (Inl e, g)"
  using assms by (simp add: send_to_backend_def not_token_def Let_def)

lemma send_to_backend_tokens_subset:
  "set (node_tokens (snd (send_to_backend post node_id data g))) \<subseteq> set (node_tokens g)"
proof (cases "not_token (map_of (node_tokens g) (py_str node_id))")
  case True
  then show ?thesis by (simp add: send_to_backend_no_token emit_def)
next
  case False
  then obtain token where t: "map_of (node_tokens g) (py_str node_id) = Some token" "token \<noteq> []"
    by (auto simp: not_token_def split: option.splits)
  show ?thesis
  proof (cases "transform_metrics data")
    case (Inl e)
    with t show ?thesis by (simp add: send_to_backend_raises)
  next
    case (Inr payload)
    with t show ?thesis
      by (auto simp: send_to_backend_token Let_def emit_def AList.delete_eq
          split: post_outcome.splits)
  qed
qed


lemma send_command_to_mesh_tokens:
  "node_tokens (send_command_to_mesh write_ok n cmd g) = node_tokens g"
  by (simp add: send_command_to_mesh_def emit_def Let_def split: json.splits)

lemma deliver_tokens: "node_tokens (snd (deliver w k cmds g)) = node_tokens g"
  by (induction cmds arbitrary: w g) (simp_all add: send_command_to_mesh_tokens split: sum.splits)

lemma poll_node_tokens: "node_tokens (snd (poll_node got w k t g)) = node_tokens g"
  by (simp add: poll_node_def Let_def deliver_tokens emit_def
      split: get_outcome.splits sum.splits)

lemma poll_loop_tokens: "node_tokens (snd (poll_loop get w nts g)) = node_tokens g"
proof (induction nts arbitrary: get w g)
  case Nil
  then show ?case by simp
next
  case (Cons nt nts)
  obtain k t where nt: "nt = (k, t)" by (cases nt)
  obtain r g1 where p: "poll_node (get 0) (w 0) k t g = (r, g1)"
    by (cases "poll_node (get 0) (w 0) k t g")
  have g1: "node_tokens g1 = node_tokens g"
    using poll_node_tokens [of "get 0" "w 0" k t g] p by simp
  show ?case
    by (cases r) (simp_all add: nt p Cons.IH g1)
qed

lemma command_poller_turn_tokens:
  "node_tokens (snd (command_poller_turn get w g)) = node_tokens g"
  by (simp add: command_poller_turn_def poll_commands_def poll_loop_tokens)

lemma process_message_tokens_subset:
  "set (node_tokens (snd (process_message post msg g))) \<subseteq> set (node_tokens g)"
proof (cases msg)
  case (JDict m)
  show ?thesis
  proof (cases "dict_get_default m ''data'' (JDict [])")
    case (JDict d)
    define g1 where "g1 = g\<lparr>messages_received := messages_received g + 1\<rparr>"
    have "set (node_tokens (snd (send_to_backend post (dict_get m ''from'') d g1)))
            \<subseteq> set (node_tokens g)"
      using send_to_backend_tokens_subset [of post "dict_get m ''from''" d g1]
      by (simp add: g1_def)
    then show ?thesis
      using \<open>msg = JDict m\<close> JDict
      by (auto simp: process_message_def Let_def g1_def split: prod.splits sum.splits)
  qed (simp_all add: \<open>msg = JDict m\<close> process_message_def Let_def)
qed (simp_all add: process_message_def)

lemma read_serial_turn_tokens_subset:
  "set (node_tokens (snd (read_serial_turn opens rd post g))) \<subseteq> set (node_tokens g)"
proof (cases "serial g = None \<or> serial g = Some False")
  case True
  then show ?thesis by (auto simp: read_serial_turn_def connect_serial_def)
next
  case False
  show ?thesis
  proof (cases rd)
    case Read_SerialException
    with False show ?thesis by (auto simp: read_serial_turn_def disconnect_serial_def)
  next
    case (Read_Line l)
    show ?thesis
    proof (cases l)
      case (Line_JSON v)
      with False Read_Line process_message_tokens_subset [of post v g] show ?thesis
        by (auto simp: read_serial_turn_def split: prod.splits option.splits)
    qed (use False Read_Line in \<open>auto simp: read_serial_turn_def\<close>)
  qed
qed

lemma exec_tokens_subset:
  "set (node_tokens (fst (exec st s))) \<subseteq> set (node_tokens (fst s))"
proof (cases s)
  case (Pair g alive)
  show ?thesis
  proof (cases st)
    case (Reader opens rd post)
    with Pair show ?thesis by (simp add: read_serial_turn_tokens_subset)
  next
    case (Poller get w)
    with Pair command_poller_turn_tokens [of get w g] show ?thesis
      by (auto split: prod.splits option.splits)
  qed
qed

lemma run_tokens_subset:
  "set (node_tokens (fst (run sts s))) \<subseteq> set (node_tokens (fst s))"
proof (induction sts arbitrary: s)
  case Nil
  then show ?case by simp
next
  case (Cons st sts)
  have "set (node_tokens (fst (run sts (exec st s)))) \<subseteq> set (node_tokens (fst (exec st s)))"
    by (rule Cons.IH)
  also have "\<dots> \<subseteq> set (node_tokens (fst s))" by (rule exec_tokens_subset)
  finally show ?case by simp
qed

lemma map_of_None_subset:
  assumes "set ys \<subseteq> set xs" and "map_of xs k = None"
  shows "map_of ys k = None"
  using assms by (force simp: map_of_eq_None_iff)

lemma run_keeps_absent:
  assumes "map_of (node_tokens g) k = None"
  shows "map_of (node_tokens (fst (run sts (g, alive)))) k = None"
  using run_tokens_subset [of sts "(g, alive)"] assms
  by (auto intro: map_of_None_subset)

lemma send_to_backend_missing_token_uncounted:
  assumes "not_token (map_of (node_tokens g) (py_str node_id))"
  shows "fst (send_to_backend post node_id data g) = Inr False
    \<and> errors (snd (send_to_backend post node_id data g)) = errors g"
  using assms by (simp add: send_to_backend_no_token emit_def)

lemma send_to_backend_transport_failure_counted:
  assumes "map_of (node_tokens g) (py_str node_id) = Some token" and "token \<noteq> []"
    and "mesh_ok data"
  shows "fst (send_to_backend Post_RequestException node_id data g) = Inr False
    \<and> errors (snd (send_to_backend Post_RequestException node_id data g)) = errors g + 1"
proof -
  obtain payload where p: "transform_metrics data = Inr payload"
    using transform_metrics_total [OF assms(3)] by blast
  show ?thesis
    by (simp add: send_to_backend_token [OF assms(1,2) p] Let_def emit_def)
qed

lemma send_to_backend_other_status_uncounted:
  assumes "map_of (node_tokens g) (py_str node_id) = Some token" and "token \<noteq> []"
    and "mesh_ok data" and "code \<noteq> 200" and "code \<noteq> 401"
  shows "fst (send_to_backend (Post_Status code) node_id data g) = Inr False
    \<and> errors (snd (send_to_backend (Post_Status code) node_id data g)) = errors g"
proof -
  obtain payload where p: "transform_metrics data = Inr payload"
    using transform_metrics_total [OF assms(3)] by blast
  show ?thesis
    using assms(4,5)
    by (simp add: send_to_backend_token [OF assms(1,2) p] Let_def emit_def)
qed

lemma py_str_7: "py_str (JInt 7) = ''7''"
  by (simp add: py_str_def dec_int_def digit_char_def)

text \<open>
  C2 at a concrete call: node 7 has a token and the backend answers with status 500. The
  call returns \<^verbatim>\<open>False\<close> and the error counter keeps its value, whereas the same
  call with a failing request increments it by one.
\<close>

theorem send_to_backend_status_500_uncounted:
  "fst (send_to_backend (Post_Status 500) (JInt 7) example_metrics example_gateway) = Inr False
   \<and> errors (snd (send_to_backend (Post_Status 500) (JInt 7) example_metrics example_gateway))
       = errors example_gateway
   \<and> errors (snd (send_to_backend Post_RequestException (JInt 7) example_metrics example_gateway))
       = errors example_gateway + 1"
proof -
  have t: "map_of (node_tokens example_gateway) (py_str (JInt 7)) = Some ''tok-7''"
    by (simp add: example_gateway_def py_str_7)
  have m: "mesh_ok example_metrics"
    by (simp add: mesh_ok_def example_metrics_def)
  obtain p where p: "transform_metrics example_metrics = Inr p"
    using transform_metrics_total [OF m] by blast
  show ?thesis
    by (simp add: send_to_backend_token [OF t _ p] Let_def emit_def)
qed

text \<open>
  C7: \<^verbatim>\<open>register_node\<close> returns \<^verbatim>\<open>None\<close> for every node id and data and leaves
  the token map as it is; so a forward for a node without a token returns \<^verbatim>\<open>False\<close>,
  and all it does is the warning of the registration: no POST is issued and no counter
  changes.
\<close>

theorem register_node_absent:
  "fst (register_node node_id data g) = None
   \<and> node_tokens (snd (register_node node_id data g)) = node_tokens g
   \<and> (map_of (node_tokens g) (py_str node_id) = None \<longrightarrow>
        send_to_backend post node_id data g = (Inr False, emit (Register_Attempt node_id) g)
      \<and> new_effects g (snd (send_to_backend post node_id data g)) = [Register_Attempt node_id])"
  by (simp add: register_node_def emit_def send_to_backend_no_token not_token_def new_effects_def)

theorem register_node_absent_witness:
  "map_of (node_tokens example_gateway) (py_str (JInt 5)) = None
   \<and> send_to_backend (Post_Status 200) (JInt 5) example_metrics example_gateway
       = (Inr False, emit (Register_Attempt (JInt 5)) example_gateway)"
proof -
  have h: "map_of (node_tokens example_gateway) (py_str (JInt 5)) = None"
    by (simp add: example_gateway_def py_str_def dec_int_def digit_char_def)
  show ?thesis
    using h register_node_absent [of "JInt 5" example_metrics example_gateway "Post_Status 200"] by simp
qed

text \<open>
  C3: when the forward for a node with a token gets status 401, the call returns
  \<^verbatim>\<open>False\<close> and the node has no token afterwards. After any further turns of the
  reader and the poller the node still has no token (nothing but a registration could
  bring one back, and the registration gives none), and the next forward for the node
  calls \<^verbatim>\<open>register_node\<close> and issues no POST with the old token.
\<close>

theorem invalid_token_removed:
  assumes "map_of (node_tokens g) (py_str node_id) = Some token" and "token \<noteq> []"
    and "mesh_ok data"
  shows "fst (send_to_backend (Post_Status 401) node_id data g) = Inr False
    \<and> map_of (node_tokens (snd (send_to_backend (Post_Status 401) node_id data g)))
         (py_str node_id) = None
    \<and> (\<forall>sts alive post' data'.
         let g2 = fst (run sts (snd (send_to_backend (Post_Status 401) node_id data g), alive))
         in map_of (node_tokens g2) (py_str node_id) = None
          \<and> send_to_backend post' node_id data' g2
              = (Inr False, emit (Register_Attempt node_id) g2))"
proof -
  obtain payload where p: "transform_metrics data = Inr payload"
    using transform_metrics_total [OF assms(3)] by blast
  define g1 where "g1 = snd (send_to_backend (Post_Status 401) node_id data g)"
  have r: "fst (send_to_backend (Post_Status 401) node_id data g) = Inr False"
    by (simp add: send_to_backend_token [OF assms(1,2) p] Let_def)
  have a: "map_of (node_tokens g1) (py_str node_id) = None"
    by (simp add: g1_def send_to_backend_token [OF assms(1,2) p] Let_def emit_def delete_conv')
  have b: "map_of (node_tokens (fst (run sts (g1, alive)))) (py_str node_id) = None"
    for sts alive
    by (rule run_keeps_absent [OF a])
  have c: "send_to_backend post' node_id data' (fst (run sts (g1, alive)))
      = (Inr False, emit (Register_Attempt node_id) (fst (run sts (g1, alive))))"
    for sts alive post' data'
    by (rule send_to_backend_no_token) (simp add: b not_token_def)
  show ?thesis
    using r a b c unfolding g1_def Let_def by blast
qed

theorem invalid_token_removed_witness:
  "map_of (node_tokens example_gateway) (py_str (JInt 7)) = Some ''tok-7''
   \<and> ''tok-7'' \<noteq> [] \<and> mesh_ok example_metrics
   \<and> fst (send_to_backend (Post_Status 401) (JInt 7) example_metrics example_gateway) = Inr False
   \<and> map_of (node_tokens
         (snd (send_to_backend (Post_Status 401) (JInt 7) example_metrics example_gateway)))
       (py_str (JInt 7)) = None
   \<and> fst (send_to_backend (Post_Status 200) (JInt 7) example_metrics
        (fst (run [] (snd (send_to_backend (Post_Status 401) (JInt 7) example_metrics
           example_gateway), True)))) = Inr False"
proof -
  have t: "map_of (node_tokens example_gateway) (py_str (JInt 7)) = Some ''tok-7''"
    by (simp add: example_gateway_def py_str_7)
  have n: "''tok-7'' \<noteq> []" by simp
  have m: "mesh_ok example_metrics"
    by (simp add: mesh_ok_def example_metrics_def)
  show ?thesis
    using t n m invalid_token_removed [OF t n m] unfolding Let_def
    by (metis fst_conv)
qed

subsection \<open>Delivering commands\<close>

text \<open>
  C10: with no port object, or with a port that is not open,
  \<^verbatim>\<open>send_command_to_mesh\<close> returns the gateway unchanged: nothing is written, the
  counter of sent commands keeps its value, and the command is dropped.
\<close>

theorem send_command_to_mesh_closed_link:
  assumes "serial g = None \<or> serial g = Some False"
  shows "send_command_to_mesh write_ok node_id command g = g"
  using assms by (auto simp: send_command_to_mesh_def)

theorem send_command_to_mesh_closed_link_witness:
  "send_command_to_mesh True 3 (JDict reboot_command)
       (gateway_init ''/dev/ttyUSB0'' 115200 ''https://chnu-iot.com'' [])
      = gateway_init ''/dev/ttyUSB0'' 115200 ''https://chnu-iot.com'' []
   \<and> send_command_to_mesh True 3 (JDict reboot_command) (example_gateway\<lparr>serial := Some False\<rparr>)
      = example_gateway\<lparr>serial := Some False\<rparr>"
proof -
  have h: "serial (gateway_init ''/dev/ttyUSB0'' 115200 ''https://chnu-iot.com'' []) = None
     \<or> serial (gateway_init ''/dev/ttyUSB0'' 115200 ''https://chnu-iot.com'' []) = Some False"
    by (simp add: gateway_init_def)
  have k: "serial (example_gateway\<lparr>serial := Some False\<rparr>) = None
     \<or> serial (example_gateway\<lparr>serial := Some False\<rparr>) = Some False"
    by simp
  show ?thesis
    using send_command_to_mesh_closed_link [OF h] send_command_to_mesh_closed_link [OF k]
    by blast
qed

lemma send_command_to_mesh_open:
  assumes "serial g = Some True"
  shows "send_command_to_mesh ok n (JDict c) g =
     (if ok then (emit (Serial_Write (command_line n c)) g)
                   \<lparr>commands_sent_to_mesh := commands_sent_to_mesh g + 1\<rparr>
      else emit (Serial_Write_Failed (command_line n c)) g)"
  using assms by (simp add: send_command_to_mesh_def command_line_def Let_def)

lemma py_int_3: "py_int ''3'' = Inr 3"
  by (simp add: py_int_def int_space_def is_digit_def digit_val_def)

lemma py_str_3: "py_str (JInt 3) = ''3''"
  by (simp add: py_str_def dec_int_def digit_char_def)

lemma command_line_reboot:
  "command_line 3 reboot_command =
     ''{\"type\": \"send\", \"target\": 3, \"data\": {\"cmd\": \"reboot\", \"value\": null, \"cmd_id\": \"c1\"}}''
       @ [CHR 0x0A]"
  by (simp add: command_line_def reboot_command_def dict_get_def dict_get_default_def
      dumps_str_def dumps_char_def dec_int_def digit_char_def)

lemma poll_commands_single_reboot:
  assumes "node_tokens g = [(py_str (JInt 3), token)]" and "serial g = Some True"
    and "get 0 = Get_Response 200 (Inr (JList [JDict
           [(''type'', JStr ''reboot''), (''payload'', JNull), (''id'', JStr ''c1'')]]))"
    and "w 0 0"
  shows "poll_commands get w g =
      (None, (emit (Serial_Write (command_line 3 reboot_command))
                (emit (Http_Get (backend_url g @ ''/api/v1/devices/commands/pending'')
                   [(''Authorization'', ''Bearer '' @ gateway_token g),
                    (''X-Device-Token'', token)]) g))
                \<lparr>commands_sent_to_mesh := commands_sent_to_mesh g + 1\<rparr>)"
proof -
  let ?url = "backend_url g @ ''/api/v1/devices/commands/pending''"
  let ?hd = "[(''Authorization'', ''Bearer '' @ gateway_token g), (''X-Device-Token'', token)]"
  define g1 where "g1 = emit (Http_Get ?url ?hd) g"
  have s1: "serial g1 = Some True" by (simp add: g1_def emit_def assms(2))
  have c1: "commands_sent_to_mesh g1 = commands_sent_to_mesh g" by (simp add: g1_def emit_def)
  have d: "deliver (w 0) ''3'' [JDict reboot_command] g1 =
      (None, (emit (Serial_Write (command_line 3 reboot_command)) g1)
                \<lparr>commands_sent_to_mesh := commands_sent_to_mesh g + 1\<rparr>)"
    by (simp add: py_int_3 send_command_to_mesh_open [OF s1] assms(4) c1)
  have n: "poll_node (get 0) (w 0) ''3'' token g =
      (None, (emit (Serial_Write (command_line 3 reboot_command)) g1)
                \<lparr>commands_sent_to_mesh := commands_sent_to_mesh g + 1\<rparr>)"
    using d by (simp add: poll_node_def assms(3) py_iter_def Let_def g1_def reboot_command_def)
  show ?thesis
    by (simp add: poll_commands_def assms(1) py_str_3 n g1_def)
qed

lemma example_poll_facts:
  "node_tokens example_poll_gateway = [(py_str (JInt 3), ''tok-3'')]"
  "serial example_poll_gateway = Some True"
  "example_get 0 = Get_Response 200 (Inr (JList [JDict
           [(''type'', JStr ''reboot''), (''payload'', JNull), (''id'', JStr ''c1'')]]))"
  "writes_succeed (0::nat) (0::nat)"
  by (simp_all add: example_poll_gateway_def example_gateway_def py_str_3 example_get_def
      writes_succeed_def)

text \<open>
  C5, as stated, fails on the bytes: \<^verbatim>\<open>json.dumps\<close> puts a space after every colon
  and comma, so the line written for the scenario is not the compact text of the claim.
\<close>



theorem poll_reboot_write_not_compact:
  "effects (snd (poll_commands example_get writes_succeed example_poll_gateway)) =
     [Http_Get ''https://chnu-iot.com/api/v1/devices/commands/pending''
        [(''Authorization'', ''Bearer gw-token''), (''X-Device-Token'', ''tok-3'')],
      Serial_Write (''{\"type\": \"send\", \"target\": 3, \"data\": {\"cmd\": \"reboot\", \"value\": null, \"cmd_id\": \"c1\"}}''
        @ [CHR 0x0A])]
   \<and> Serial_Write (''{\"type\":\"send\",\"target\":3,\"data\":{\"cmd\":\"reboot\",\"value\":null,\"cmd_id\":\"c1\"}}''
        @ [CHR 0x0A])
       \<notin> set (effects (snd (poll_commands example_get writes_succeed example_poll_gateway)))"
proof -
  have "effects (snd (poll_commands example_get writes_succeed example_poll_gateway)) =
     [Http_Get ''https://chnu-iot.com/api/v1/devices/commands/pending''
        [(''Authorization'', ''Bearer gw-token''), (''X-Device-Token'', ''tok-3'')],
      Serial_Write (command_line 3 reboot_command)]"
    by (subst poll_commands_single_reboot
          [of example_poll_gateway "''tok-3''" example_get writes_succeed, OF example_poll_facts])
       (simp add: emit_def example_poll_gateway_def example_gateway_def gateway_init_def
          rstrip_slash_def)
  then show ?thesis
    by (simp add: command_line_reboot)
qed

text \<open>
  C5, amended: when node 3 is the registered node, the port is open, the poll returns the
  single reboot command and the write succeeds, the poll issues one GET and exactly one
  serial write, whose bytes are the envelope as \<^verbatim>\<open>json.dumps\<close> prints it, with a
  space after each colon and comma, followed by a single newline; the counter of sent
  commands goes up by one.
\<close>

theorem poll_reboot_single_write:
  assumes "node_tokens g = [(py_str (JInt 3), token)]" and "serial g = Some True"
    and "get 0 = Get_Response 200 (Inr (JList [JDict
           [(''type'', JStr ''reboot''), (''payload'', JNull), (''id'', JStr ''c1'')]]))"
    and "w 0 0"
  shows "fst (poll_commands get w g) = None
    \<and> new_effects g (snd (poll_commands get w g)) =
        [Http_Get (backend_url g @ ''/api/v1/devices/commands/pending'')
           [(''Authorization'', ''Bearer '' @ gateway_token g), (''X-Device-Token'', token)],
         Serial_Write (''{\"type\": \"send\", \"target\": 3, \"data\": {\"cmd\": \"reboot\", \"value\": null, \"cmd_id\": \"c1\"}}''
           @ [CHR 0x0A])]
    \<and> commands_sent_to_mesh (snd (poll_commands get w g)) = commands_sent_to_mesh g + 1"
  by (simp add: poll_commands_single_reboot [of g token get w, OF assms] new_effects_def
      emit_def command_line_reboot)

theorem poll_reboot_single_write_witness:
  "node_tokens example_poll_gateway = [(py_str (JInt 3), ''tok-3'')]
   \<and> serial example_poll_gateway = Some True
   \<and> example_get 0 = Get_Response 200 (Inr (JList [JDict
           [(''type'', JStr ''reboot''), (''payload'', JNull), (''id'', JStr ''c1'')]]))
   \<and> fst (poll_commands example_get writes_succeed example_poll_gateway) = None
   \<and> commands_sent_to_mesh (snd (poll_commands example_get writes_succeed example_poll_gateway)) = 1"
proof -
  have e: "commands_sent_to_mesh example_poll_gateway = 0"
    by (simp add: example_poll_gateway_def example_gateway_def gateway_init_def)
  show ?thesis
    using example_poll_facts(1-3) e
      poll_reboot_single_write [of example_poll_gateway "''tok-3''" example_get writes_succeed,
          OF example_poll_facts]
    by simp
qed

subsection \<open>The read loop\<close>








subsection \<open>The token map over a run\<close>

lemma send_to_backend_tokens_cases:
  "node_tokens (snd (send_to_backend post node_id data g)) = node_tokens g
   \<or> (post = Post_Status 401
      \<and> node_tokens (snd (send_to_backend post node_id data g))
          = AList.delete (py_str node_id) (node_tokens g))"
proof (cases "not_token (map_of (node_tokens g) (py_str node_id))")
  case True
  then show ?thesis by (simp add: send_to_backend_no_token emit_def)
next
  case False
  then obtain token where t: "map_of (node_tokens g) (py_str node_id) = Some token" "token \<noteq> []"
    by (auto simp: not_token_def split: option.splits)
  show ?thesis
  proof (cases "transform_metrics data")
    case (Inl e)
    with t show ?thesis by (simp add: send_to_backend_raises)
  next
    case (Inr payload)
    with t show ?thesis
      by (auto simp: send_to_backend_token Let_def emit_def split: post_outcome.splits)
  qed
qed

lemma run_init_state:
  "node_tokens (fst (run sts (g, True))) = [] \<and> snd (run sts (g, True))" if "node_tokens g = []"
  using that
proof (induction sts arbitrary: g)
  case Nil
  then show ?case by simp
next
  case (Cons st sts)
  have sub: "set (node_tokens (fst (exec st (g, True)))) \<subseteq> set (node_tokens g)"
    using exec_tokens_subset [of st "(g, True)"] by simp
  then have e: "node_tokens (fst (exec st (g, True))) = []"
    using Cons.prems by simp
  have a: "snd (exec st (g, True))"
    using Cons.prems by (cases st) (simp_all add: command_poller_turn_def)
  obtain g' where g': "exec st (g, True) = (g', True)"
    using a by (cases "exec st (g, True)") simp
  show ?case
    using Cons.IH [of g'] e g' by simp
qed

text \<open>
  C9: no step of the gateway adds an entry to the token map: \<^verbatim>\<open>register_node\<close>
  returns \<^verbatim>\<open>None\<close> and leaves the map alone, and \<^verbatim>\<open>send_to_backend\<close> leaves it
  alone or, on status 401, deletes the node's entry. The map is empty at the start, so
  after any run it is still empty, every \<^verbatim>\<open>send_to_backend\<close> returns
  \<^verbatim>\<open>False\<close> without a POST, and neither the poller's turn nor
  \<^verbatim>\<open>poll_commands\<close> issues a request.
\<close>

theorem token_map_stays_empty:
  "(\<forall>st s. set (node_tokens (fst (exec st s))) \<subseteq> set (node_tokens (fst s)))
   \<and> fst (register_node node_id data g) = None
   \<and> node_tokens (snd (register_node node_id data g)) = node_tokens g
   \<and> (node_tokens (snd (send_to_backend post node_id data g)) = node_tokens g
      \<or> (post = Post_Status 401
         \<and> node_tokens (snd (send_to_backend post node_id data g))
             = AList.delete (py_str node_id) (node_tokens g)))
   \<and> node_tokens (gateway_init port baud url token) = []
   \<and> (let g0 = fst (run sts (gateway_init port baud url token, True))
      in node_tokens g0 = []
       \<and> send_to_backend post node_id data g0 = (Inr False, emit (Register_Attempt node_id) g0)
       \<and> command_poller_turn get w g0 = (None, g0)
       \<and> poll_commands get w g0 = (None, g0))"
proof -
  define g0 where "g0 = fst (run sts (gateway_init port baud url token, True))"
  have i: "node_tokens (gateway_init port baud url token) = []"
    by (simp add: gateway_init_def)
  have e: "node_tokens g0 = []"
    unfolding g0_def using run_init_state [OF i] by simp
  have s: "send_to_backend post node_id data g0 = (Inr False, emit (Register_Attempt node_id) g0)"
    by (rule send_to_backend_no_token) (simp add: e not_token_def)
  have p: "command_poller_turn get w g0 = (None, g0)" "poll_commands get w g0 = (None, g0)"
    by (simp_all add: command_poller_turn_def poll_commands_def e)
  show ?thesis
    using exec_tokens_subset send_to_backend_tokens_cases [of post node_id data g] i e s p
    unfolding g0_def [symmetric] Let_def
    by (simp add: register_node_def emit_def)
qed

theorem token_map_stays_empty_witness:
  "node_tokens (fst (run
       [Reader True (Read_Line (Line_JSON (JDict
            [(''type'', JStr ''mesh_data''), (''from'', JInt 7),
             (''data'', JDict example_metrics)]))) (Post_Status 200),
        Poller example_get writes_succeed]
       (gateway_init ''/dev/ttyUSB0'' 115200 ''https://chnu-iot.com'' ''gw-token'', True))) = []
   \<and> fst (send_to_backend (Post_Status 200) (JInt 7) example_metrics
       (fst (run
         [Reader True (Read_Line (Line_JSON (JDict
              [(''type'', JStr ''mesh_data''), (''from'', JInt 7),
               (''data'', JDict example_metrics)]))) (Post_Status 200),
          Poller example_get writes_succeed]
         (gateway_init ''/dev/ttyUSB0'' 115200 ''https://chnu-iot.com'' ''gw-token'', True))))
      = Inr False"
  using token_map_stays_empty [of "JInt 7" example_metrics example_gateway "Post_Status 200"
      "''/dev/ttyUSB0''" 115200 "''https://chnu-iot.com''" "''gw-token''"
      "[Reader True (Read_Line (Line_JSON (JDict
            [(''type'', JStr ''mesh_data''), (''from'', JInt 7),
             (''data'', JDict example_metrics)]))) (Post_Status 200),
        Poller example_get writes_succeed]" example_get writes_succeed]
  unfolding Let_def by (metis fst_conv)

subsection \<open>A poll cycle\<close>

lemma send_command_to_mesh_events:
  "\<exists>c. send_command_to_mesh ok n cmd g =
     g\<lparr>commands_sent_to_mesh := c,
       effects := effects g @ command_events (serial g = Some True) ok n cmd\<rparr>"
proof (cases "serial g = Some True")
  case True
  show ?thesis
  proof (cases cmd)
    case (JDict d)
    show ?thesis
    proof (cases ok)
      case True
      show ?thesis
        by (rule exI [of _ "commands_sent_to_mesh g + 1"])
           (simp add: JDict send_command_to_mesh_open [OF \<open>serial g = Some True\<close>]
              command_events_def \<open>serial g = Some True\<close> True emit_def)
    next
      case False
      show ?thesis
        by (rule exI [of _ "commands_sent_to_mesh g"])
           (simp add: JDict send_command_to_mesh_open [OF \<open>serial g = Some True\<close>]
              command_events_def \<open>serial g = Some True\<close> False emit_def)
    qed
  qed (auto simp: send_command_to_mesh_def True command_events_def
        intro: exI [of _ "commands_sent_to_mesh g"])
next
  case False
  then have "serial g = None \<or> serial g = Some False" by (cases "serial g") auto
  then have "send_command_to_mesh ok n cmd g = g"
    by (auto simp: send_command_to_mesh_def)
  then show ?thesis
    using False by (auto simp: command_events_def intro: exI [of _ "commands_sent_to_mesh g"])
qed

lemma deliver_events:
  assumes "py_int k = Inr n"
  shows "\<exists>c. deliver w k cmds g =
     (None, g\<lparr>commands_sent_to_mesh := c,
              effects := effects g @ batch_events (serial g = Some True) w n cmds\<rparr>)"
proof (induction cmds arbitrary: w g)
  case Nil
  show ?case by (auto intro: exI [of _ "commands_sent_to_mesh g"])
next
  case (Cons cmd cmds)
  obtain c1 where s: "send_command_to_mesh (w 0) n cmd g =
     g\<lparr>commands_sent_to_mesh := c1,
       effects := effects g @ command_events (serial g = Some True) (w 0) n cmd\<rparr>"
    using send_command_to_mesh_events by blast
  define g1 where "g1 = send_command_to_mesh (w 0) n cmd g"
  obtain c2 where d: "deliver (\<lambda>j. w (Suc j)) k cmds g1 =
     (None, g1\<lparr>commands_sent_to_mesh := c2,
              effects := effects g1 @ batch_events (serial g1 = Some True) (\<lambda>j. w (Suc j)) n cmds\<rparr>)"
    using Cons.IH by blast
  have "deliver w k (cmd # cmds) g = deliver (\<lambda>j. w (Suc j)) k cmds g1"
    by (simp add: assms g1_def)
  also have "\<dots> = (None, g\<lparr>commands_sent_to_mesh := c2,
       effects := effects g @ batch_events (serial g = Some True) w n (cmd # cmds)\<rparr>)"
    unfolding d by (simp add: g1_def s)
  finally show ?case by blast
qed


lemma poll_node_events:
  assumes "answer_ok got" and "py_int k = Inr n"
  shows "\<exists>r c. poll_node got w k t g =
     (r, g\<lparr>commands_sent_to_mesh := c,
           effects := effects g @ poll_request g t
             # batch_events (serial g = Some True) w n (commands_of got)\<rparr>)
     \<and> (r = None \<or> r = Some RequestException)"
proof -
  define g1 where "g1 = emit (poll_request g t) g"
  let ?same = "g\<lparr>commands_sent_to_mesh := commands_sent_to_mesh g,
           effects := effects g @ poll_request g t
             # batch_events (serial g = Some True) w n (commands_of got)\<rparr>"
  show ?thesis
  proof (cases got)
    case Get_RequestException
    have "poll_node got w k t g = (Some RequestException, ?same)"
      by (simp add: poll_node_def Get_RequestException emit_def poll_request_def commands_of_def)
    then show ?thesis by blast
  next
    case (Get_Response code body)
    show ?thesis
    proof (cases "code = 200")
      case False
      have "poll_node got w k t g = (None, ?same)"
        by (simp add: poll_node_def Get_Response emit_def poll_request_def False commands_of_def)
      then show ?thesis by blast
    next
      case True
      show ?thesis
      proof (cases body)
        case (Inl e)
        then have e: "e = RequestException"
          using assms(1) by (simp add: answer_ok_def Get_Response True)
        have "poll_node got w k t g = (Some RequestException, ?same)"
          by (simp add: poll_node_def Get_Response emit_def poll_request_def True Inl e
              commands_of_def)
        then show ?thesis by blast
      next
        case (Inr v)
        then obtain cmds where it: "py_iter v = Inr cmds"
          using assms(1) by (auto simp: answer_ok_def Get_Response True split: sum.splits)
        have co: "commands_of got = cmds"
          by (simp add: commands_of_def Get_Response True Inr it)
        obtain c where d: "deliver w k cmds g1 =
            (None, g1\<lparr>commands_sent_to_mesh := c,
               effects := effects g1 @ batch_events (serial g1 = Some True) w n cmds\<rparr>)"
          using deliver_events [OF assms(2)] by blast
        have "poll_node got w k t g = deliver w k cmds g1"
          by (simp add: poll_node_def Get_Response g1_def poll_request_def True Inr it)
        then have "poll_node got w k t g =
            (None, g\<lparr>commands_sent_to_mesh := c,
               effects := effects g @ poll_request g t
                 # batch_events (serial g = Some True) w n (commands_of got)\<rparr>)"
          unfolding d by (simp add: g1_def emit_def co)
        then show ?thesis by blast
      qed
    qed
  qed
qed

lemma poll_request_frame:
  "poll_request (g\<lparr>commands_sent_to_mesh := c, effects := es\<rparr>) = poll_request g"
  by (simp add: poll_request_def fun_eq_iff)

lemma poll_loop_events:
  assumes "\<forall>i<length nts. answer_ok (get i)"
    and "\<forall>kt\<in>set nts. \<exists>n. py_int (fst kt) = Inr n"
  shows "\<exists>c. poll_loop get w nts g =
     (None, g\<lparr>commands_sent_to_mesh := c,
              effects := effects g
                @ cycle_events (poll_request g) (serial g = Some True) get w nts\<rparr>)"
  using assms
proof (induction nts arbitrary: get w g)
  case Nil
  show ?case by (auto intro: exI [of _ "commands_sent_to_mesh g"])
next
  case (Cons kt nts)
  obtain k t where kt: "kt = (k, t)" by (cases kt)
  obtain n where n: "py_int k = Inr n" using Cons.prems(2) kt by auto
  have ok: "answer_ok (get 0)" using Cons.prems(1) by auto
  obtain r c1 where p: "poll_node (get 0) (w 0) k t g =
     (r, g\<lparr>commands_sent_to_mesh := c1,
           effects := effects g @ poll_request g t
             # batch_events (serial g = Some True) (w 0) n (commands_of (get 0))\<rparr>)"
    and r: "r = None \<or> r = Some RequestException"
    using poll_node_events [OF ok n] by blast
  define g1 where "g1 = g\<lparr>commands_sent_to_mesh := c1,
           effects := effects g @ poll_request g t
             # batch_events (serial g = Some True) (w 0) n (commands_of (get 0))\<rparr>"
  have rest: "\<forall>i<length nts. answer_ok (get (Suc i))"
    using Cons.prems(1) by auto
  have keys: "\<forall>kt\<in>set nts. \<exists>n. py_int (fst kt) = Inr n"
    using Cons.prems(2) by auto
  obtain c2 where l: "poll_loop (\<lambda>i. get (Suc i)) (\<lambda>i. w (Suc i)) nts g1 =
     (None, g1\<lparr>commands_sent_to_mesh := c2,
              effects := effects g1
                @ cycle_events (poll_request g1) (serial g1 = Some True)
                    (\<lambda>i. get (Suc i)) (\<lambda>i. w (Suc i)) nts\<rparr>)"
    using Cons.IH [OF rest keys] by blast
  have "poll_loop get w (kt # nts) g = poll_loop (\<lambda>i. get (Suc i)) (\<lambda>i. w (Suc i)) nts g1"
    using r by (auto simp: kt p g1_def)
  also have "\<dots> = (None, g\<lparr>commands_sent_to_mesh := c2,
              effects := effects g
                @ cycle_events (poll_request g) (serial g = Some True) get w (kt # nts)\<rparr>)"
    unfolding l by (simp add: g1_def kt n poll_request_frame)
  finally show ?case by blast
qed


lemma command_events_no_get: "filter is_http_get (command_events link ok n cmd) = []"
proof (cases link)
  case True
  then show ?thesis
    by (cases cmd) (simp_all add: command_events_def is_http_get_def)
next
  case False
  then show ?thesis by (simp add: command_events_def)
qed

lemma batch_events_no_get: "filter is_http_get (batch_events link w n cmds) = []"
proof (induction cmds arbitrary: w)
  case Nil
  show ?case by simp
next
  case (Cons cmd cmds)
  show ?case by (simp add: command_events_no_get Cons.IH)
qed

lemma cycle_events_gets:
  assumes "\<And>t. is_http_get (req t)"
  shows "filter is_http_get (cycle_events req link get w nts) = map (\<lambda>kt. req (snd kt)) nts"
proof (induction nts arbitrary: get w)
  case Nil
  show ?case by simp
next
  case (Cons kt nts)
  show ?case
    by (cases "py_int (fst kt)") (simp_all add: assms batch_events_no_get Cons.IH)
qed

lemma batch_events_written:
  assumes "j < length cmds" and "cmds ! j = JDict c" and "w j"
  shows "Serial_Write (command_line n c) \<in> set (batch_events True w n cmds)"
  using assms
proof (induction cmds arbitrary: j w)
  case Nil
  then show ?case by simp
next
  case (Cons cmd cmds)
  show ?case
  proof (cases j)
    case 0
    with Cons.prems show ?thesis by (simp add: command_events_def)
  next
    case (Suc j')
    with Cons.prems have "Serial_Write (command_line n c)
        \<in> set (batch_events True (\<lambda>j. w (Suc j)) n cmds)"
      by (intro Cons.IH) simp_all
    then show ?thesis by simp
  qed
qed

lemma cycle_events_written:
  assumes "i < length nts" and "py_int (fst (nts ! i)) = Inr n"
    and "j < length (commands_of (get i))" and "commands_of (get i) ! j = JDict c"
    and "w i j"
  shows "Serial_Write (command_line n c) \<in> set (cycle_events req True get w nts)"
  using assms
proof (induction nts arbitrary: i get w)
  case Nil
  then show ?case by simp
next
  case (Cons kt nts)
  show ?case
  proof (cases i)
    case 0
    with Cons.prems show ?thesis
      by (simp add: batch_events_written)
  next
    case (Suc i')
    with Cons.prems have "Serial_Write (command_line n c)
        \<in> set (cycle_events req True (\<lambda>i. get (Suc i)) (\<lambda>i. w (Suc i)) nts)"
      by (intro Cons.IH) simp_all
    then show ?thesis by simp
  qed
qed

lemma py_int_7: "py_int ''7'' = Inr 7"
  by (simp add: py_int_def int_space_def is_digit_def digit_val_def)

text \<open>
  C8: let every answer of the cycle be well-formed, which leaves any of the requests free to
  fail, and let every key of the token map be the text of an integer. Then, whichever
  requests and whichever writes fail, \<^verbatim>\<open>poll_commands\<close> ends without an exception,
  it has issued the GET of every node in the map, in order, and with the port open every
  command of every node's batch whose own write succeeds has been written.
\<close>

theorem poll_cycle_isolation:
  assumes "\<forall>i<length (node_tokens g). answer_ok (get i)"
    and "\<forall>kt\<in>set (node_tokens g). \<exists>n. py_int (fst kt) = Inr n"
  shows "fst (poll_commands get w g) = None
    \<and> filter is_http_get (new_effects g (snd (poll_commands get w g)))
        = map (\<lambda>kt. poll_request g (snd kt)) (node_tokens g)
    \<and> (serial g = Some True \<longrightarrow>
        (\<forall>i j c n. i < length (node_tokens g) \<and> py_int (fst (node_tokens g ! i)) = Inr n
            \<and> j < length (commands_of (get i)) \<and> commands_of (get i) ! j = JDict c \<and> w i j
          \<longrightarrow> Serial_Write (command_line n c)
                \<in> set (new_effects g (snd (poll_commands get w g)))))"
proof -
  obtain cnt where p: "poll_commands get w g =
     (None, g\<lparr>commands_sent_to_mesh := cnt,
              effects := effects g
                @ cycle_events (poll_request g) (serial g = Some True) get w (node_tokens g)\<rparr>)"
    using poll_loop_events [OF assms] unfolding poll_commands_def by blast
  have n: "new_effects g (snd (poll_commands get w g))
      = cycle_events (poll_request g) (serial g = Some True) get w (node_tokens g)"
    by (simp add: p new_effects_def)
  have a: "fst (poll_commands get w g) = None" by (simp add: p)
  have b: "filter is_http_get (new_effects g (snd (poll_commands get w g)))
        = map (\<lambda>kt. poll_request g (snd kt)) (node_tokens g)"
    unfolding n by (rule cycle_events_gets) (simp add: poll_request_def is_http_get_def)
  have c: "Serial_Write (command_line n c) \<in> set (new_effects g (snd (poll_commands get w g)))"
    if "serial g = Some True" "i < length (node_tokens g)"
      "py_int (fst (node_tokens g ! i)) = Inr n"
      "j < length (commands_of (get i))" "commands_of (get i) ! j = JDict c" "w i j"
    for i j c n
    unfolding n using that by (simp add: cycle_events_written)
  show ?thesis
    using a b c by blast
qed

theorem poll_cycle_isolation_witness:
  "node_tokens example_gateway = [(''7'', ''tok-7''), (''3'', ''tok-3'')]
   \<and> failing_then_reboot 0 = Get_RequestException
   \<and> fst (poll_commands failing_then_reboot writes_succeed example_gateway) = None
   \<and> filter is_http_get
        (new_effects example_gateway
           (snd (poll_commands failing_then_reboot writes_succeed example_gateway)))
       = [poll_request example_gateway ''tok-7'', poll_request example_gateway ''tok-3'']
   \<and> Serial_Write (command_line 3 reboot_command)
       \<in> set (new_effects example_gateway
            (snd (poll_commands failing_then_reboot writes_succeed example_gateway)))"
proof -
  have nt: "node_tokens example_gateway = [(''7'', ''tok-7''), (''3'', ''tok-3'')]"
    by (simp add: example_gateway_def)
  have a: "\<forall>i<length (node_tokens example_gateway). answer_ok (failing_then_reboot i)"
    by (simp add: nt failing_then_reboot_def answer_ok_def example_get_def py_iter_def)
  have b: "\<forall>kt\<in>set (node_tokens example_gateway). \<exists>n. py_int (fst kt) = Inr n"
    by (simp add: nt py_int_7 py_int_3)
  have s: "serial example_gateway = Some True"
    by (simp add: example_gateway_def)
  have c: "(1::nat) < length (node_tokens example_gateway)
      \<and> py_int (fst (node_tokens example_gateway ! 1)) = Inr 3
      \<and> (0::nat) < length (commands_of (failing_then_reboot 1))
      \<and> commands_of (failing_then_reboot 1) ! 0 = JDict reboot_command
      \<and> writes_succeed (1::nat) (0::nat)"
    by (simp add: nt py_int_3 failing_then_reboot_def commands_of_def example_get_def
        py_iter_def reboot_command_def writes_succeed_def)
  note t = poll_cycle_isolation [of example_gateway failing_then_reboot writes_succeed, OF a b]
  have d: "Serial_Write (command_line 3 reboot_command)
       \<in> set (new_effects example_gateway
            (snd (poll_commands failing_then_reboot writes_succeed example_gateway)))"
    using t s c by blast
  show ?thesis
    using d t by (simp add: nt failing_then_reboot_def)
qed

end
